theory Spec2Isabelle
  imports Complex_Main "HOL-Library.Sublist" "HOL-Library.AList"
begin

section \<open>ECMAScript values used by the airport corrector\<close>

text \<open>
  The embedding follows \<^verbatim>\<open>src/correct-airports-with-openflights.js\<close>, class
  \<^verbatim>\<open>AirportCorrector\<close>. A string is the list of its UTF-16 code units, so that
  \<^verbatim>\<open>.length\<close> is \<^term>\<open>length\<close>. Literals of the source are written with \<open>js\<close>.
\<close>

type_synonym jsstring = "nat list"

definition js :: "string \<Rightarrow> jsstring" where
  "js s = map of_char s"

text \<open>
  The records come out of \<^verbatim>\<open>JSON.parse\<close>, so a value is one of the JSON kinds, or
  \<^verbatim>\<open>undefined\<close> (what reading an absent property gives). A number is held as the text
  that \<^verbatim>\<open>Number::toString\<close> gives for it: the program never calculates with a number,
  it only prints it, compares it and tests it against zero, and JSON has neither NaN nor
  an infinity. An object is the list of its properties in insertion order; the first
  entry for a key is the property.
\<close>

datatype jsval =
    JUndefined
  | JNull
  | JBool bool
  | JNum jsstring
  | JStr jsstring
  | JArr "jsval list"
  | JObj "(jsstring \<times> jsval) list"

type_synonym jsobj = "(jsstring \<times> jsval) list"

datatype error = TypeError

definition getProp :: "jsobj \<Rightarrow> jsstring \<Rightarrow> jsval" where
  "getProp obj k = (case map_of obj k of Some v \<Rightarrow> v | None \<Rightarrow> JUndefined)"

text \<open>An object literal \<^verbatim>\<open>{...obj, k1: v1, k2: v2}\<close> defines the properties in order.\<close>

definition withProps :: "jsobj \<Rightarrow> (jsstring \<times> jsval) list \<Rightarrow> jsobj" where
  "withProps obj props = foldl (\<lambda>acc (k, v). AList.update k v acc) obj props"

fun truthy :: "jsval \<Rightarrow> bool" where
  "truthy JUndefined = False"
| "truthy JNull = False"
| "truthy (JBool b) = b"
| "truthy (JNum s) = (s \<noteq> js ''0'')"
| "truthy (JStr s) = (s \<noteq> [])"
| "truthy (JArr vs) = True"
| "truthy (JObj ps) = True"

text \<open>\<^verbatim>\<open>a || b\<close>\<close>

definition orElse :: "jsval \<Rightarrow> jsval \<Rightarrow> jsval" where
  "orElse a b = (if truthy a then a else b)"

text \<open>
  \<^verbatim>\<open>a !== b\<close> where \<open>a\<close> is read from a candidate and \<open>b\<close> from a reference record.
  The two records come from two \<^verbatim>\<open>JSON.parse\<close> calls, so an array or an object of
  one is never the same object as a value of the other.
\<close>

fun strictNotEqual :: "jsval \<Rightarrow> jsval \<Rightarrow> bool" where
  "strictNotEqual (JArr xs) b = True"
| "strictNotEqual (JObj ps) b = True"
| "strictNotEqual a (JArr ys) = True"
| "strictNotEqual a (JObj qs) = True"
| "strictNotEqual a b = (a \<noteq> b)"

fun joinComma :: "jsstring list \<Rightarrow> jsstring" where
  "joinComma [] = []"
| "joinComma [s] = s"
| "joinComma (s # t # ts) = s @ 44 # joinComma (t # ts)"

text \<open>
  The conversion \<^verbatim>\<open>${v}\<close> of a template literal. An array prints its elements
  joined by commas, with nothing for \<^verbatim>\<open>null\<close> and \<^verbatim>\<open>undefined\<close>; an object
  prints through \<^verbatim>\<open>Object.prototype.toString\<close> (no record here has a property of its
  own named \<^verbatim>\<open>toString\<close> or \<^verbatim>\<open>valueOf\<close>).
\<close>

fun toStr :: "jsval \<Rightarrow> jsstring" where
  "toStr JUndefined = js ''undefined''"
| "toStr JNull = js ''null''"
| "toStr (JBool b) = (if b then js ''true'' else js ''false'')"
| "toStr (JNum s) = s"
| "toStr (JStr s) = s"
| "toStr (JArr vs) =
     joinComma (map (\<lambda>v. if v = JUndefined \<or> v = JNull then [] else toStr v) vs)"
| "toStr (JObj ps) = js ''[object Object]''"

section \<open>String methods and regular expressions\<close>

text \<open>
  \<^verbatim>\<open>\s\<close> and \<^verbatim>\<open>trim\<close> use the same set: the white space and line terminator code
  points. \<^verbatim>\<open>\w\<close> is \<^verbatim>\<open>[A-Za-z0-9_]\<close>.
\<close>

definition isSpace :: "nat \<Rightarrow> bool" where
  "isSpace c = (c \<in> {9, 10, 11, 12, 13, 32, 160, 5760, 8232, 8233, 8239, 8287, 12288, 65279}
                \<or> (8192 \<le> c \<and> c \<le> 8202))"

definition isWord :: "nat \<Rightarrow> bool" where
  "isWord c = ((48 \<le> c \<and> c \<le> 57) \<or> (65 \<le> c \<and> c \<le> 90) \<or> c = 95 \<or> (97 \<le> c \<and> c \<le> 122))"

text \<open>
  \<^verbatim>\<open>toLowerCase\<close> and \<^verbatim>\<open>toUpperCase\<close> follow the Unicode case tables of the
  runtime, which are no part of this repository. Two uses are kept apart.

  \<^verbatim>\<open>normalizeName\<close> deletes every code unit outside \<^verbatim>\<open>[A-Za-z0-9_]\<close> and white space
  right after it has lower-cased the name and cut the tokens out, and no token holds a
  unit outside Basic Latin. Of the case table only the rows that reach into Basic Latin
  bear on its result: Basic Latin itself, U+0130 (which gives \<open>i\<close> and U+0307) and
  U+212A (which gives \<open>k\<close>). \<open>toLowerCase\<close> below carries these rows and leaves every
  other code unit as it is; it is the lower-casing of \<^verbatim>\<open>normalizeName\<close> only.

  \<^verbatim>\<open>normalizeCountry\<close> and the IATA map keep code units outside Basic Latin, so there
  the whole table counts. Their case mappings are parameters: a \<open>runtime\<close> holds the
  two string methods, and nothing is assumed of them. \<open>basicLatinCase\<close> is what the
  methods do on strings of Basic Latin code units; the examples, which are such strings,
  are evaluated with it.
\<close>

record runtime =
  lowerCase :: "jsstring \<Rightarrow> jsstring"
  upperCase :: "jsstring \<Rightarrow> jsstring"

definition lowerUnit :: "nat \<Rightarrow> jsstring" where
  "lowerUnit c = (if 65 \<le> c \<and> c \<le> 90 then [c + 32]
                  else if c = 304 then [105, 775]
                  else if c = 8490 then [107]
                  else [c])"

definition toLowerCase :: "jsstring \<Rightarrow> jsstring" where
  "toLowerCase s = concat (map lowerUnit s)"

definition upperUnit :: "nat \<Rightarrow> nat" where
  "upperUnit c = (if 97 \<le> c \<and> c \<le> 122 then c - 32 else c)"

definition toUpperCase :: "jsstring \<Rightarrow> jsstring" where
  "toUpperCase s = map upperUnit s"

definition basicLatinCase :: runtime where
  "basicLatinCase = \<lparr>lowerCase = toLowerCase, upperCase = toUpperCase\<rparr>"

text \<open>
  The flag \<^verbatim>\<open>i\<close> without \<^verbatim>\<open>u\<close> compares canonicalized code units: the upper case
  of the unit, unless that would take a unit from outside Basic Latin into it. A unit
  outside Basic Latin therefore never matches a Basic Latin letter of a pattern.
\<close>

definition canonicalize :: "nat \<Rightarrow> nat" where
  "canonicalize c = (if 97 \<le> c \<and> c \<le> 122 then c - 32 else c)"

definition matchesAt :: "jsstring \<Rightarrow> jsstring \<Rightarrow> bool" where
  "matchesAt s pat = prefix (map canonicalize pat) (map canonicalize s)"

text \<open>
  \<^verbatim>\<open>.replace(/p1|p2|...|pn/gi, '')\<close> for literal alternatives, none of them empty: at
  each position the first alternative that matches is cut out and the scan goes on
  behind it; where none matches the code unit stays.
\<close>

function removeAlternatives :: "jsstring list \<Rightarrow> jsstring \<Rightarrow> jsstring" where
  "removeAlternatives pats [] = []"
| "removeAlternatives pats (c # cs) =
     (case find (matchesAt (c # cs)) pats of
        Some p \<Rightarrow> removeAlternatives pats (drop (length p - 1) cs)
      | None \<Rightarrow> c # removeAlternatives pats cs)"
  by pat_completeness auto
termination
  by (relation "measure (\<lambda>(pats, s). length s)") auto

text \<open>\<^verbatim>\<open>.replace(/[^\w\s]/g, '')\<close>\<close>

definition removeSpecial :: "jsstring \<Rightarrow> jsstring" where
  "removeSpecial s = filter (\<lambda>c. isWord c \<or> isSpace c) s"

text \<open>\<^verbatim>\<open>.replace(/\s+/g, ' ')\<close>\<close>

function collapseSpaces :: "jsstring \<Rightarrow> jsstring" where
  "collapseSpaces [] = []"
| "collapseSpaces (c # cs) =
     (if isSpace c then 32 # collapseSpaces (dropWhile isSpace cs)
      else c # collapseSpaces cs)"
  by pat_completeness auto
termination
  by (relation "measure length") (auto simp: length_dropWhile_le less_Suc_eq_le)

definition trim :: "jsstring \<Rightarrow> jsstring" where
  "trim s = rev (dropWhile isSpace (rev (dropWhile isSpace s)))"

text \<open>\<^verbatim>\<open>s.split(' ')\<close>: the empty string gives one empty piece.\<close>

fun splitSpace :: "jsstring \<Rightarrow> jsstring list" where
  "splitSpace [] = [[]]"
| "splitSpace (c # cs) =
     (if c = 32 then [] # splitSpace cs
      else (c # hd (splitSpace cs)) # tl (splitSpace cs))"

text \<open>\<^verbatim>\<open>a.includes(b)\<close>\<close>

definition includesStr :: "jsstring \<Rightarrow> jsstring \<Rightarrow> bool" where
  "includesStr a b = sublist b a"

section \<open>The normalizer\<close>

definition nameTokens :: "jsstring list" where
  "nameTokens =
     [js ''international'', js ''airport'', js ''air base'', js ''airfield'', js ''aerodrome'']"

text \<open>
  \<^verbatim>\<open>normalizeName(name)\<close> calls \<^verbatim>\<open>name.toLowerCase()\<close> on what it is given: on
  anything but a string that call throws a TypeError.
\<close>

definition normalizeName :: "jsval \<Rightarrow> error + jsstring" where
  "normalizeName name =
     (case name of
        JStr s \<Rightarrow>
          Inr (trim (collapseSpaces (removeSpecial (removeAlternatives nameTokens (toLowerCase s)))))
      | _ \<Rightarrow> Inl TypeError)"

definition countryPhrases :: "jsstring list" where
  "countryPhrases =
     [js ''republic of'', js ''kingdom of'', js ''people's democratic republic of'',
      js ''democratic republic of'']"

text \<open>
  \<^verbatim>\<open>normalizeCountry(country)\<close> starts from \<^verbatim>\<open>(country || '')\<close>; its
  \<^verbatim>\<open>.toLowerCase()\<close> is that of the runtime.
\<close>

definition normalizeCountry :: "runtime \<Rightarrow> jsval \<Rightarrow> error + jsstring" where
  "normalizeCountry rt country =
     (case orElse country (JStr []) of
        JStr s \<Rightarrow> Inr (trim (collapseSpaces (removeAlternatives countryPhrases (lowerCase rt s))))
      | _ \<Rightarrow> Inl TypeError)"

section \<open>The lookup maps\<close>

text \<open>
  A \<^verbatim>\<open>Map\<close> keeps its keys in insertion order; \<^verbatim>\<open>set\<close> on a key that is present
  replaces the value where it stands.
\<close>

type_synonym nameIndex = "(jsstring \<times> jsobj list) list"
type_synonym iataIndex = "(jsstring \<times> jsobj) list"

definition indexByName :: "jsobj \<Rightarrow> nameIndex \<Rightarrow> error + nameIndex" where
  "indexByName airport byName =
     (if truthy (getProp airport (js ''name'')) then
        (case normalizeName (getProp airport (js ''name'')) of
           Inl e \<Rightarrow> Inl e
         | Inr normalizedName \<Rightarrow>
             (let byName' = (if map_of byName normalizedName = None
                             then AList.update normalizedName [] byName else byName)
              in Inr (AList.update normalizedName
                        (the (map_of byName' normalizedName) @ [airport]) byName')))
      else Inr byName)"

definition indexByIATA :: "runtime \<Rightarrow> jsobj \<Rightarrow> iataIndex \<Rightarrow> error + iataIndex" where
  "indexByIATA rt airport byIATA =
     (if truthy (getProp airport (js ''iataCode'')) then
        (case getProp airport (js ''iataCode'') of
           JStr s \<Rightarrow> Inr (AList.update (upperCase rt s) airport byIATA)
         | _ \<Rightarrow> Inl TypeError)
      else Inr byIATA)"

fun createLookupMapsFrom ::
  "runtime \<Rightarrow> jsobj list \<Rightarrow> nameIndex \<times> iataIndex \<Rightarrow> error + (nameIndex \<times> iataIndex)" where
  "createLookupMapsFrom rt [] maps = Inr maps"
| "createLookupMapsFrom rt (airport # rest) (byName, byIATA) =
     (case indexByName airport byName of
        Inl e \<Rightarrow> Inl e
      | Inr byName' \<Rightarrow>
          (case indexByIATA rt airport byIATA of
             Inl e \<Rightarrow> Inl e
           | Inr byIATA' \<Rightarrow> createLookupMapsFrom rt rest (byName', byIATA')))"

text \<open>The constructor leaves both maps empty.\<close>

definition createLookupMaps :: "runtime \<Rightarrow> jsobj list \<Rightarrow> error + (nameIndex \<times> iataIndex)" where
  "createLookupMaps rt openFlightsData = createLookupMapsFrom rt openFlightsData ([], [])"

section \<open>The matcher\<close>

datatype matchType = ExactNameCountry | ExactName | PartialName | Iata

fun matchTypeName :: "matchType \<Rightarrow> jsstring" where
  "matchTypeName ExactNameCountry = js ''exactNameCountry''"
| "matchTypeName ExactName = js ''exactName''"
| "matchTypeName PartialName = js ''partialName''"
| "matchTypeName Iata = js ''iata''"

text \<open>
  \<^verbatim>\<open>airports.find(a => this.normalizeCountry(a.country) === this.normalizeCountry(country))\<close>:
  the callback runs on the entries in order until one answers true, and an exception of
  the callback leaves the search.
\<close>

fun findCountryMatch :: "runtime \<Rightarrow> jsobj list \<Rightarrow> jsval \<Rightarrow> error + jsobj option" where
  "findCountryMatch rt [] country = Inr None"
| "findCountryMatch rt (a # as) country =
     (case normalizeCountry rt (getProp a (js ''country'')) of
        Inl e \<Rightarrow> Inl e
      | Inr k \<Rightarrow>
          (case normalizeCountry rt country of
             Inl e \<Rightarrow> Inl e
           | Inr k' \<Rightarrow> if k = k' then Inr (Some a) else findCountryMatch rt as country))"

definition significantWords :: "jsstring \<Rightarrow> jsstring list" where
  "significantWords s = filter (\<lambda>word. 2 < length word) (splitSpace s)"

definition commonWords :: "jsstring list \<Rightarrow> jsstring list \<Rightarrow> jsstring list" where
  "commonWords words openFlightsWords =
     filter (\<lambda>word. list_ex (\<lambda>ofWord. includesStr ofWord word \<or> includesStr word ofWord)
                       openFlightsWords) words"

text \<open>\<^verbatim>\<open>Math.min(2, Math.ceil(words.length / 2))\<close>\<close>

definition overlapThreshold :: "nat \<Rightarrow> nat" where
  "overlapThreshold n = min 2 ((n + 1) div 2)"

fun partialNameLoop :: "runtime \<Rightarrow> jsstring list \<Rightarrow> jsval \<Rightarrow> nameIndex \<Rightarrow> error + jsobj option" where
  "partialNameLoop rt words country [] = Inr None"
| "partialNameLoop rt words country ((openFlightsName, airports) # rest) =
     (if overlapThreshold (length words)
           \<le> length (commonWords words (significantWords openFlightsName))
      then (case findCountryMatch rt airports country of
              Inl e \<Rightarrow> Inl e
            | Inr (Some countryMatch) \<Rightarrow> Inr (Some countryMatch)
            | Inr None \<Rightarrow> partialNameLoop rt words country rest)
      else partialNameLoop rt words country rest)"

definition findPartialNameMatch ::
  "runtime \<Rightarrow> jsstring \<Rightarrow> jsval \<Rightarrow> nameIndex \<Rightarrow> error + jsobj option" where
  "findPartialNameMatch rt normalizedName country byName =
     (if length normalizedName < 4 then Inr None
      else if length (significantWords normalizedName) = 0 then Inr None
      else partialNameLoop rt (significantWords normalizedName) country byName)"

definition iataStrategy ::
  "runtime \<Rightarrow> jsobj \<Rightarrow> iataIndex \<Rightarrow> error + (jsobj \<times> matchType) option" where
  "iataStrategy rt yourAirport byIATA =
     (if truthy (getProp yourAirport (js ''airportCode'')) then
        (case getProp yourAirport (js ''airportCode'') of
           JStr code \<Rightarrow>
             (case map_of byIATA (upperCase rt code) of
                Some iataMatch \<Rightarrow> Inr (Some (iataMatch, Iata))
              | None \<Rightarrow> Inr None)
         | _ \<Rightarrow> Inl TypeError)
      else Inr None)"

definition findOpenFlightsMatch ::
  "runtime \<Rightarrow> jsobj \<Rightarrow> nameIndex \<Rightarrow> iataIndex \<Rightarrow> error + (jsobj \<times> matchType) option" where
  "findOpenFlightsMatch rt yourAirport byName byIATA =
     (case normalizeName (orElse (getProp yourAirport (js ''airportName'')) (JStr [])) of
        Inl e \<Rightarrow> Inl e
      | Inr normalizedYourName \<Rightarrow>
          (case map_of byName normalizedYourName of
             Some (first # others) \<Rightarrow>
               (case findCountryMatch rt (first # others) (getProp yourAirport (js ''country'')) of
                  Inl e \<Rightarrow> Inl e
                | Inr (Some countryMatch) \<Rightarrow> Inr (Some (countryMatch, ExactNameCountry))
                | Inr None \<Rightarrow> Inr (Some (first, ExactName)))
           | _ \<Rightarrow>
               (case findPartialNameMatch rt normalizedYourName
                       (getProp yourAirport (js ''country'')) byName of
                  Inl e \<Rightarrow> Inl e
                | Inr (Some partialMatch) \<Rightarrow> Inr (Some (partialMatch, PartialName))
                | Inr None \<Rightarrow> iataStrategy rt yourAirport byIATA)))"

section \<open>The reconciler\<close>

text \<open>\<^verbatim>\<open>`${label}: ${old} \<rightarrow> ${new}`\<close> with the arrow U+2192.\<close>

definition correctionText :: "string \<Rightarrow> jsval \<Rightarrow> jsval \<Rightarrow> jsstring" where
  "correctionText label old new = js label @ js '': '' @ toStr old @ [32, 8594, 32] @ toStr new"

definition needsCorrection :: "jsobj \<Rightarrow> jsobj \<Rightarrow> error + jsstring list" where
  "needsCorrection yourAirport openFlightsMatch =
     (let iata = (if strictNotEqual (getProp yourAirport (js ''airportCode''))
                                    (getProp openFlightsMatch (js ''iataCode''))
                  then [correctionText ''IATA'' (getProp yourAirport (js ''airportCode''))
                                              (getProp openFlightsMatch (js ''iataCode''))]
                  else []);
          icao = (if strictNotEqual (getProp yourAirport (js ''icaoCode''))
                                    (getProp openFlightsMatch (js ''icaoCode''))
                  then [correctionText ''ICAO'' (getProp yourAirport (js ''icaoCode''))
                                              (getProp openFlightsMatch (js ''icaoCode''))]
                  else []);
          city = (if strictNotEqual (getProp yourAirport (js ''city''))
                                    (getProp openFlightsMatch (js ''city''))
                  then [correctionText ''City'' (getProp yourAirport (js ''city''))
                                              (getProp openFlightsMatch (js ''city''))]
                  else [])
      in case normalizeName (getProp yourAirport (js ''airportName'')) of
           Inl e \<Rightarrow> Inl e
         | Inr yourNormalized \<Rightarrow>
             (case normalizeName (getProp openFlightsMatch (js ''name'')) of
                Inl e \<Rightarrow> Inl e
              | Inr openFlightsNormalized \<Rightarrow>
                  Inr (iata @ icao @ city @
                       (if yourNormalized \<noteq> openFlightsNormalized
                        then [correctionText ''Name'' (getProp yourAirport (js ''airportName''))
                                                    (getProp openFlightsMatch (js ''name''))]
                        else []))))"

definition correctedRecord :: "jsobj \<Rightarrow> jsobj \<Rightarrow> matchType \<Rightarrow> jsstring list \<Rightarrow> jsobj" where
  "correctedRecord yourAirport openFlightsMatch mt corrections =
     withProps yourAirport
       [(js ''airportCode'', getProp openFlightsMatch (js ''iataCode'')),
        (js ''icaoCode'', getProp openFlightsMatch (js ''icaoCode'')),
        (js ''airportName'', getProp openFlightsMatch (js ''name'')),
        (js ''city'', getProp openFlightsMatch (js ''city'')),
        (js ''country'', getProp openFlightsMatch (js ''country'')),
        (js ''correctionStatus'', JStr (js ''corrected'')),
        (js ''matchType'', JStr (matchTypeName mt)),
        (js ''corrections'', JArr (map JStr corrections)),
        (js ''originalData'', JObj
           [(js ''airportCode'', getProp yourAirport (js ''airportCode'')),
            (js ''icaoCode'', getProp yourAirport (js ''icaoCode'')),
            (js ''airportName'', getProp yourAirport (js ''airportName'')),
            (js ''city'', getProp yourAirport (js ''city'')),
            (js ''country'', getProp yourAirport (js ''country''))]),
        (js ''openFlightsData'', JObj
           [(js ''id'', getProp openFlightsMatch (js ''id'')),
            (js ''latitude'', getProp openFlightsMatch (js ''latitude'')),
            (js ''longitude'', getProp openFlightsMatch (js ''longitude'')),
            (js ''altitude'', getProp openFlightsMatch (js ''altitude''))])]"

definition correctAirport :: "jsobj \<Rightarrow> jsobj \<Rightarrow> matchType \<Rightarrow> error + jsobj" where
  "correctAirport yourAirport openFlightsMatch mt =
     (case needsCorrection yourAirport openFlightsMatch of
        Inl e \<Rightarrow> Inl e
      | Inr corrections \<Rightarrow>
          if length corrections = 0
          then Inr (withProps yourAirport
                      [(js ''correctionStatus'', JStr (js ''no_correction_needed'')),
                       (js ''matchType'', JStr (matchTypeName mt))])
          else Inr (correctedRecord yourAirport openFlightsMatch mt corrections))"

text \<open>
  The body of the loop of \<^verbatim>\<open>processAirports\<close> for one candidate: the record that is
  pushed to \<^verbatim>\<open>correctedAirports\<close>. Console output and the counters are left out.
\<close>

definition unverifiedRecord :: "jsobj \<Rightarrow> jsobj" where
  "unverifiedRecord yourAirport =
     withProps yourAirport
       [(js ''unverified'', JBool True),
        (js ''correctionStatus'', JStr (js ''no_match'')),
        (js ''matchType'', JStr (js ''none''))]"

definition processAirport ::
  "runtime \<Rightarrow> jsobj \<Rightarrow> nameIndex \<Rightarrow> iataIndex \<Rightarrow> error + jsobj" where
  "processAirport rt yourAirport byName byIATA =
     (case findOpenFlightsMatch rt yourAirport byName byIATA of
        Inl e \<Rightarrow> Inl e
      | Inr None \<Rightarrow> Inr (unverifiedRecord yourAirport)
      | Inr (Some (m, mt)) \<Rightarrow> correctAirport yourAirport m mt)"

section \<open>Vocabulary of the specification\<close>

text \<open>
  The data model of the specification gives every identity field the type "string,
  optional". \<open>stringOrFalsy\<close> is that type on a JSON value: a string, or a value that
  \<^verbatim>\<open>||\<close> replaces (absent, null, false, zero). On any other value
  \<^verbatim>\<open>normalizeCountry\<close> throws.
\<close>

fun stringOrFalsy :: "jsval \<Rightarrow> bool" where
  "stringOrFalsy (JStr s) = True"
| "stringOrFalsy v = (\<not> truthy v)"

definition typedIndex :: "nameIndex \<Rightarrow> bool" where
  "typedIndex byName =
     (\<forall>(bucketKey, bucket)\<in>set byName. \<forall>a\<in>set bucket. stringOrFalsy (getProp a (js ''country'')))"

text \<open>The normalized country key of a reference record equals that of the candidate.\<close>

definition countryMatches :: "runtime \<Rightarrow> jsval \<Rightarrow> jsobj \<Rightarrow> bool" where
  "countryMatches rt country a =
     (normalizeCountry rt (getProp a (js ''country'')) = normalizeCountry rt country)"

text \<open>
  A partial hit in the words of the specification: the number of candidate tokens that
  contain or are contained in some token of the bucket key is at least
  \<open>min(2, ceil(candidateTokenCount / 2))\<close>. \<open>partialHitRecords\<close> lists the records of
  the partial-hit buckets in the key order of the index.
\<close>

definition partialHit :: "jsstring list \<Rightarrow> jsstring \<Rightarrow> bool" where
  "partialHit tokens bucketKey =
     (min 2 (nat \<lceil>real (length tokens) / 2\<rceil>)
        \<le> length (filter (\<lambda>t. \<exists>u\<in>set (significantWords bucketKey). sublist t u \<or> sublist u t)
                    tokens))"

definition partialHitRecords :: "jsstring list \<Rightarrow> nameIndex \<Rightarrow> jsobj list" where
  "partialHitRecords tokens byName =
     concat (map snd (filter (\<lambda>(bucketKey, bucket). partialHit tokens bucketKey) byName))"

text \<open>At least one of the four compared fields differs.\<close>

definition fieldDiffers :: "jsobj \<Rightarrow> jsobj \<Rightarrow> bool" where
  "fieldDiffers yourAirport openFlightsMatch =
     (strictNotEqual (getProp yourAirport (js ''airportCode''))
                     (getProp openFlightsMatch (js ''iataCode''))
      \<or> strictNotEqual (getProp yourAirport (js ''icaoCode''))
                        (getProp openFlightsMatch (js ''icaoCode''))
      \<or> strictNotEqual (getProp yourAirport (js ''city''))
                        (getProp openFlightsMatch (js ''city''))
      \<or> normalizeName (getProp yourAirport (js ''airportName''))
          \<noteq> normalizeName (getProp openFlightsMatch (js ''name'')))"

definition identityKeys :: "jsstring list" where
  "identityKeys =
     [js ''airportCode'', js ''icaoCode'', js ''airportName'', js ''city'', js ''country'']"

definition metadataKeys :: "jsstring list" where
  "metadataKeys =
     [js ''correctionStatus'', js ''matchType'', js ''corrections'',
      js ''originalData'', js ''openFlightsData'']"

text \<open>
  The shape of a name key: lower-case Basic Latin letters, digits and the underscore,
  with single spaces (U+0020) between them and none at either end.
\<close>

definition keyChar :: "nat \<Rightarrow> bool" where
  "keyChar c = ((48 \<le> c \<and> c \<le> 57) \<or> c = 95 \<or> (97 \<le> c \<and> c \<le> 122))"

definition normalKey :: "jsstring \<Rightarrow> bool" where
  "normalKey k =
     ((\<forall>c\<in>set k. keyChar c \<or> c = 32)
      \<and> \<not> sublist [32, 32] k
      \<and> (k \<noteq> [] \<longrightarrow> hd k \<noteq> 32 \<and> last k \<noteq> 32))"


definition noUpper :: "jsstring \<Rightarrow> bool" where
  "noUpper s = (\<forall>c\<in>set s. \<not> (65 \<le> c \<and> c \<le> 90))"

definition isLetter :: "nat \<Rightarrow> bool" where
  "isLetter c = ((65 \<le> c \<and> c \<le> 90) \<or> (97 \<le> c \<and> c \<le> 122))"

definition isDigit :: "nat \<Rightarrow> bool" where
  "isDigit c = (48 \<le> c \<and> c \<le> 57)"

text \<open>\<^verbatim>\<open>normalizeName(normalizeName(x))\<close>\<close>

definition normalizeTwice :: "jsval \<Rightarrow> error + jsstring" where
  "normalizeTwice x =
     (case normalizeName x of Inl e \<Rightarrow> Inl e | Inr k \<Rightarrow> normalizeName (JStr k))"


subsection \<open>Example records\<close>

definition refBergen :: jsobj where
  "refBergen =
     [(js ''id'', JNum (js ''636'')), (js ''name'', JStr (js ''Bergen Airport'')),
      (js ''city'', JStr (js ''Bergen'')), (js ''country'', JStr (js ''Norway'')),
      (js ''iataCode'', JStr (js ''BGO'')), (js ''icaoCode'', JStr (js ''ENBR'')),
      (js ''latitude'', JNum (js ''60.29''))]"

definition refFlesland :: jsobj where
  "refFlesland =
     [(js ''id'', JNum (js ''7'')), (js ''name'', JStr (js ''Flesland Airfield'')),
      (js ''city'', JStr (js ''Flesland'')), (js ''country'', JStr (js ''Sweden'')),
      (js ''iataCode'', JNull), (js ''icaoCode'', JNull)]"

definition refUnnamed :: jsobj where
  "refUnnamed =
     [(js ''id'', JNum (js ''8'')), (js ''name'', JStr (js ''Airport'')),
      (js ''city'', JStr (js ''Ilo'')), (js ''country'', JStr (js ''Peru'')),
      (js ''iataCode'', JStr (js ''ILQ'')), (js ''icaoCode'', JStr (js ''SPLO''))]"

definition refNoName :: jsobj where
  "refNoName =
     [(js ''id'', JNum (js ''9'')), (js ''name'', JNull),
      (js ''city'', JStr (js ''Bergen'')), (js ''country'', JStr (js ''Norway'')),
      (js ''iataCode'', JStr (js ''BGO'')), (js ''icaoCode'', JStr (js ''ENBR''))]"

definition candBergen :: jsobj where
  "candBergen =
     [(js ''country'', JStr (js ''Norway'')), (js ''city'', JStr (js ''Bergen'')),
      (js ''airportCode'', JStr (js ''BGO'')), (js ''airportName'', JStr (js ''Bergen Airport'')),
      (js ''icaoCode'', JStr (js ''XXXX'')), (js ''runwayCategory'', JStr (js ''long''))]"

definition candShort :: jsobj where
  "candShort =
     [(js ''country'', JStr (js ''Peru'')), (js ''city'', JStr (js ''Ilo'')),
      (js ''airportCode'', JStr (js ''bgo'')), (js ''airportName'', JStr (js ''Ilo Airport''))]"

definition candEmpty :: jsobj where
  "candEmpty =
     [(js ''country'', JStr (js ''Peru'')), (js ''city'', JStr (js ''Ilo'')),
      (js ''airportCode'', JStr []), (js ''airportName'', JStr [])]"

section \<open>Auxiliary facts\<close>

lemmas evaluation = js_def getProp_def withProps_def orElse_def isSpace_def isWord_def lowerUnit_def
  toLowerCase_def upperUnit_def toUpperCase_def canonicalize_def matchesAt_def removeSpecial_def
  trim_def includesStr_def nameTokens_def normalizeName_def countryPhrases_def normalizeCountry_def
  indexByName_def indexByIATA_def createLookupMaps_def significantWords_def commonWords_def
  overlapThreshold_def findPartialNameMatch_def iataStrategy_def findOpenFlightsMatch_def
  correctionText_def needsCorrection_def correctedRecord_def correctAirport_def unverifiedRecord_def
  processAirport_def sublist_Cons_right countryMatches_def typedIndex_def basicLatinCase_def
  refBergen_def refFlesland_def refUnnamed_def refNoName_def candBergen_def candShort_def candEmpty_def

subsection \<open>Objects\<close>

lemma map_of_withProps:
  "map_of (withProps obj props) = map_of obj ++ map_of (rev props)"
proof (induction props arbitrary: obj)
  case Nil
  show ?case by (simp add: withProps_def)
next
  case (Cons p ps)
  obtain k v where p: "p = (k, v)" by (cases p)
  have step: "withProps obj (p # ps) = withProps (AList.update k v obj) ps"
    by (simp add: withProps_def p)
  show ?case
    unfolding step Cons.IH
    by (auto simp: p update_conv' fun_eq_iff map_add_def split: option.splits)
qed

lemma getProp_withProps:
  "getProp (withProps obj props) k =
     (case map_of (rev props) k of Some v \<Rightarrow> v | None \<Rightarrow> getProp obj k)"
  by (simp add: getProp_def map_of_withProps map_add_def split: option.splits)

subsection \<open>Country search\<close>

lemma normalizeCountry_total:
  "stringOrFalsy v \<Longrightarrow> \<exists>k. normalizeCountry rt v = Inr k"
  by (cases v) (auto simp: normalizeCountry_def orElse_def)

lemma findCountryMatch_find:
  assumes "\<forall>a\<in>set as. stringOrFalsy (getProp a (js ''country''))" and "stringOrFalsy country"
  shows "findCountryMatch rt as country = Inr (find (countryMatches rt country) as)"
  using assms
proof (induction as)
  case Nil
  show ?case by simp
next
  case (Cons a as)
  from Cons.prems obtain k where k: "normalizeCountry rt (getProp a (js ''country'')) = Inr k"
    using normalizeCountry_total by fastforce
  from Cons.prems obtain k' where k': "normalizeCountry rt country = Inr k'"
    using normalizeCountry_total by blast
  show ?case using Cons k k' by (simp add: countryMatches_def)
qed

lemma iataStrategy_cases:
  "iataStrategy rt a byIATA = Inl e \<or> iataStrategy rt a byIATA = Inr None
   \<or> (\<exists>m. iataStrategy rt a byIATA = Inr (Some (m, Iata)))"
  by (cases e) (auto simp: iataStrategy_def split: jsval.splits option.splits)

subsection \<open>The partial-name loop\<close>

lemma ceiling_half: "nat \<lceil>real n / 2\<rceil> = (n + 1) div 2"
proof -
  have "\<lceil>real n / 2\<rceil> = \<lceil>of_int (int n) / (of_int 2 :: real)\<rceil>" by simp
  also have "\<dots> = - ((- int n) div 2)"
    unfolding ceiling_divide_eq_div by simp
  also have "\<dots> = int ((n + 1) div 2)" by linarith
  finally show ?thesis by simp
qed

lemma partialHit_code:
  "partialHit tokens bucketKey
     = (overlapThreshold (length tokens) \<le> length (commonWords tokens (significantWords bucketKey)))"
proof -
  have "(\<lambda>t. \<exists>u\<in>set ws. sublist t u \<or> sublist u t)
          = (\<lambda>word. list_ex (\<lambda>ofWord. includesStr ofWord word \<or> includesStr word ofWord) ws)" for ws
    by (auto simp: list_ex_iff includesStr_def fun_eq_iff)
  then show ?thesis
    by (simp add: partialHit_def overlapThreshold_def commonWords_def ceiling_half)
qed

lemma find_append_if:
  "find P (xs @ ys) = (case find P xs of Some x \<Rightarrow> Some x | None \<Rightarrow> find P ys)"
  by (induction xs) auto

lemma partialNameLoop_find:
  assumes "typedIndex byName" and "stringOrFalsy country"
  shows "partialNameLoop rt words country byName
           = Inr (find (countryMatches rt country) (partialHitRecords words byName))"
  using assms(1)
proof (induction byName)
  case Nil
  show ?case by (simp add: partialHitRecords_def)
next
  case (Cons entry rest)
  obtain key bucket where e: "entry = (key, bucket)" by (cases entry)
  have rest: "typedIndex rest" using Cons.prems by (simp add: typedIndex_def)
  have b: "\<forall>a\<in>set bucket. stringOrFalsy (getProp a (js ''country''))"
    using Cons.prems by (simp add: typedIndex_def e)
  note fc = findCountryMatch_find [OF b assms(2)]
  show ?case
  proof (cases "partialHit words key")
    case True
    then show ?thesis
      using Cons.IH [OF rest] fc
      by (simp add: e partialHitRecords_def find_append_if partialHit_code split: option.splits)
  next
    case False
    then show ?thesis
      using Cons.IH [OF rest]
      by (simp add: e partialHitRecords_def partialHit_code)
  qed
qed

subsection \<open>The reconciler\<close>

lemma needsCorrection_nonempty:
  assumes "normalizeName (getProp yourAirport (js ''airportName'')) = Inr a"
    and "normalizeName (getProp openFlightsMatch (js ''name'')) = Inr b"
  shows "\<exists>cs. needsCorrection yourAirport openFlightsMatch = Inr cs
            \<and> (cs \<noteq> [] \<longleftrightarrow> fieldDiffers yourAirport openFlightsMatch)"
  using assms by (simp add: needsCorrection_def fieldDiffers_def Let_def)

lemma getProp_correctedRecord:
  "getProp (correctedRecord y m mt cs) (js ''airportCode'') = getProp m (js ''iataCode'')"
  "getProp (correctedRecord y m mt cs) (js ''icaoCode'') = getProp m (js ''icaoCode'')"
  "getProp (correctedRecord y m mt cs) (js ''airportName'') = getProp m (js ''name'')"
  "getProp (correctedRecord y m mt cs) (js ''city'') = getProp m (js ''city'')"
  "getProp (correctedRecord y m mt cs) (js ''country'') = getProp m (js ''country'')"
  "getProp (correctedRecord y m mt cs) (js ''correctionStatus'') = JStr (js ''corrected'')"
  by (simp_all add: correctedRecord_def getProp_withProps js_def)

lemma correctAirport_cases:
  assumes "correctAirport y m mt = Inr out"
  shows "out = withProps y [(js ''correctionStatus'', JStr (js ''no_correction_needed'')),
                            (js ''matchType'', JStr (matchTypeName mt))]
         \<or> (\<exists>cs. out = correctedRecord y m mt cs)"
  using assms by (auto simp: correctAirport_def split: sum.splits if_splits)

text \<open>
  Where both names are strings, a difference in any compared field leads to the
  corrected record, and that record carries all five fields of the reference record.
\<close>

lemma correctAirport_overwrites_identity:
  assumes "normalizeName (getProp yourAirport (js ''airportName'')) = Inr a"
    and "normalizeName (getProp openFlightsMatch (js ''name'')) = Inr b"
    and "fieldDiffers yourAirport openFlightsMatch"
  shows "\<exists>updated. correctAirport yourAirport openFlightsMatch mt = Inr updated
          \<and> getProp updated (js ''correctionStatus'') = JStr (js ''corrected'')
          \<and> getProp updated (js ''airportCode'') = getProp openFlightsMatch (js ''iataCode'')
          \<and> getProp updated (js ''icaoCode'') = getProp openFlightsMatch (js ''icaoCode'')
          \<and> getProp updated (js ''airportName'') = getProp openFlightsMatch (js ''name'')
          \<and> getProp updated (js ''city'') = getProp openFlightsMatch (js ''city'')
          \<and> getProp updated (js ''country'') = getProp openFlightsMatch (js ''country'')"
proof -
  from needsCorrection_nonempty [OF assms(1,2)] assms(3)
  obtain cs where cs: "needsCorrection yourAirport openFlightsMatch = Inr cs" "cs \<noteq> []"
    by blast
  then have "correctAirport yourAirport openFlightsMatch mt
               = Inr (correctedRecord yourAirport openFlightsMatch mt cs)"
    by (simp add: correctAirport_def)
  then show ?thesis by (simp add: getProp_correctedRecord)
qed

subsection \<open>The shape of a normalized key\<close>

lemma keyChar_not_space: "keyChar c \<Longrightarrow> \<not> isSpace c"
  by (auto simp: keyChar_def isSpace_def)

lemma isSpace_32: "isSpace 32"
  by (simp add: isSpace_def)

lemma noUpper_toLowerCase: "noUpper (toLowerCase s)"
  by (auto simp: noUpper_def toLowerCase_def lowerUnit_def split: if_splits)

lemma set_removeAlternatives: "set (removeAlternatives pats s) \<subseteq> set s"
proof (induction pats s rule: removeAlternatives.induct)
  case (1 pats)
  show ?case by simp
next
  case (2 pats c cs)
  show ?case
  proof (cases "find (matchesAt (c # cs)) pats")
    case None
    with 2 show ?thesis by auto
  next
    case (Some p)
    with 2 have "set (removeAlternatives pats (drop (length p - 1) cs)) \<subseteq> set (drop (length p - 1) cs)"
      by simp
    also have "\<dots> \<subseteq> set cs" by (rule set_drop_subset)
    finally show ?thesis using Some by auto
  qed
qed

lemma collapseSpaces_head:
  "collapseSpaces s = c # r \<Longrightarrow> isSpace c \<Longrightarrow> s \<noteq> [] \<and> isSpace (hd s)"
  by (cases s) (auto simp: split: if_splits)

lemma set_collapseSpaces:
  "set (collapseSpaces s) \<subseteq> {c \<in> set s. \<not> isSpace c} \<union> {32}"
proof (induction s rule: collapseSpaces.induct)
  case 1
  show ?case by simp
next
  case (2 c cs)
  show ?case
  proof (cases "isSpace c")
    case True
    with 2 have "set (collapseSpaces (dropWhile isSpace cs))
                   \<subseteq> {c \<in> set (dropWhile isSpace cs). \<not> isSpace c} \<union> {32}" by simp
    also have "\<dots> \<subseteq> {c \<in> set cs. \<not> isSpace c} \<union> {32}"
      by (auto dest: set_dropWhileD)
    finally show ?thesis using True by auto
  next
    case False
    with 2 show ?thesis by auto
  qed
qed



lemma collapseSpaces_single:
  "\<not> sublist [32, 32] (collapseSpaces s)"
proof (induction s rule: collapseSpaces.induct)
  case 1
  show ?case by simp
next
  case (2 c cs)
  show ?case
  proof (cases "isSpace c")
    case True
    let ?t = "dropWhile isSpace cs"
    have ih: "\<not> sublist [32, 32] (collapseSpaces ?t)" using 2 True by simp
    have "\<not> prefix [32, 32] (32 # collapseSpaces ?t)"
    proof
      assume "prefix [32, 32] (32 # collapseSpaces ?t)"
      then obtain r where "collapseSpaces ?t = 32 # r"
        by (cases "collapseSpaces ?t") auto
      then have "?t \<noteq> [] \<and> isSpace (hd ?t)"
        using collapseSpaces_head isSpace_32 by blast
      then show False using hd_dropWhile by blast
    qed
    then show ?thesis using True ih by (simp add: sublist_Cons_right)
  next
    case False
    then have "c \<noteq> 32" using isSpace_32 by auto
    then show ?thesis using 2 False by (simp add: sublist_Cons_right)
  qed
qed

lemma sublist_trim: "sublist (trim s) s"
proof -
  have "prefix (rev (dropWhile isSpace (rev (dropWhile isSpace s)))) (dropWhile isSpace s)"
    using suffix_dropWhile [of isSpace "rev (dropWhile isSpace s)"]
    by (simp add: suffix_to_prefix)
  then have "sublist (trim s) (dropWhile isSpace s)"
    by (simp add: trim_def)
  moreover have "sublist (dropWhile isSpace s) s" by simp
  ultimately show ?thesis by (rule sublist_order.order.trans)
qed

lemma last_dropWhile_same:
  "dropWhile P xs \<noteq> [] \<Longrightarrow> last (dropWhile P xs) = last xs"
  by (induction xs) (auto split: if_splits)

lemma trim_ends:
  assumes "trim s \<noteq> []"
  shows "\<not> isSpace (hd (trim s)) \<and> \<not> isSpace (last (trim s))"
proof -
  define u where "u = dropWhile isSpace s"
  define v where "v = dropWhile isSpace (rev u)"
  have t: "trim s = rev v" by (simp add: trim_def u_def v_def)
  from assms have v: "v \<noteq> []" by (simp add: t)
  then have "rev u \<noteq> []" unfolding v_def by (cases "rev u") auto
  then have u: "u \<noteq> []" by simp
  have "\<not> isSpace (hd v)" using v unfolding v_def by (rule hd_dropWhile)
  then have l: "\<not> isSpace (last (trim s))" by (simp add: t last_rev)
  have "last v = last (rev u)" using v unfolding v_def by (rule last_dropWhile_same)
  then have "hd (trim s) = hd u" by (simp add: t hd_rev last_rev)
  moreover have "\<not> isSpace (hd u)" using u unfolding u_def by (rule hd_dropWhile)
  ultimately show ?thesis using l by simp
qed


lemma normalKey_pipeline:
  assumes "noUpper t"
  shows "normalKey (trim (collapseSpaces (removeSpecial t)))"
proof -
  let ?f = "removeSpecial t"
  let ?c = "collapseSpaces ?f"
  let ?k = "trim ?c"
  have sub: "sublist ?k ?c" by (rule sublist_trim)
  have chars: "\<forall>c\<in>set ?k. keyChar c \<or> c = 32"
  proof
    fix c assume "c \<in> set ?k"
    then have "c \<in> set ?c" using set_mono_sublist [OF sub] by blast
    then have "(c \<in> set ?f \<and> \<not> isSpace c) \<or> c = 32" using set_collapseSpaces by blast
    then show "keyChar c \<or> c = 32"
      using assms by (auto simp: removeSpecial_def noUpper_def isWord_def keyChar_def)
  qed
  have single: "\<not> sublist [32, 32] ?k"
    using collapseSpaces_single sub sublist_order.order.trans by blast
  have ends: "?k \<noteq> [] \<longrightarrow> hd ?k \<noteq> 32 \<and> last ?k \<noteq> 32"
    using trim_ends [of ?c] isSpace_32 by auto
  show ?thesis unfolding normalKey_def using chars single ends by blast
qed

lemma normalizeName_normalKey:
  "normalizeName (JStr s) = Inr k \<Longrightarrow> normalKey k"
  using normalKey_pipeline [of "removeAlternatives nameTokens (toLowerCase s)"]
    noUpper_toLowerCase [of s] set_removeAlternatives [of nameTokens "toLowerCase s"]
  by (auto simp: normalizeName_def noUpper_def)





subsection \<open>Keys that normalization leaves alone\<close>

lemma canonicalize_inj:
  "\<not> (65 \<le> c \<and> c \<le> 90) \<Longrightarrow> \<not> (65 \<le> d \<and> d \<le> 90) \<Longrightarrow> canonicalize c = canonicalize d \<Longrightarrow> c = d"
  by (auto simp: canonicalize_def split: if_splits)

lemma matchesAt_prefix:
  assumes "noUpper s" and "noUpper p" and "matchesAt s p"
  shows "prefix p s"
proof -
  have inj: "inj_on canonicalize (set p \<union> set (take (length p) s))"
    using assms(1,2)
    by (auto simp: inj_on_def noUpper_def dest!: in_set_takeD intro: canonicalize_inj)
  from assms(3) obtain r where r: "map canonicalize s = map canonicalize p @ r"
    by (auto simp: matchesAt_def prefix_def)
  then have "take (length p) (map canonicalize s) = map canonicalize p" by simp
  then have "map canonicalize (take (length p) s) = map canonicalize p" by (simp add: take_map)
  then have "take (length p) s = p"
    using inj by (metis inj_on_map_eq_map sup_commute)
  then show ?thesis by (metis take_is_prefix)
qed

lemma removeAlternatives_id:
  assumes "noUpper s" and "\<forall>p\<in>set pats. noUpper p \<and> \<not> sublist p s"
  shows "removeAlternatives pats s = s"
  using assms
proof (induction s)
  case Nil
  show ?case by simp
next
  case (Cons c cs)
  have "find (matchesAt (c # cs)) pats = None"
  proof (rule ccontr)
    assume "find (matchesAt (c # cs)) pats \<noteq> None"
    then obtain p where "p \<in> set pats" "matchesAt (c # cs) p"
      by (auto simp: find_None_iff)
    then show False using Cons.prems matchesAt_prefix by blast
  qed
  moreover have "removeAlternatives pats cs = cs"
  proof (rule Cons.IH)
    show "noUpper cs" using Cons.prems(1) by (simp add: noUpper_def)
    show "\<forall>p\<in>set pats. noUpper p \<and> \<not> sublist p cs"
      using Cons.prems(2) by (auto simp: sublist_Cons_right)
  qed
  ultimately show ?case by simp
qed

lemma toLowerCase_id:
  assumes "\<forall>c\<in>set k. keyChar c \<or> c = 32"
  shows "toLowerCase k = k"
  using assms
proof (induction k)
  case Nil
  show ?case by (simp add: toLowerCase_def)
next
  case (Cons c cs)
  then have "lowerUnit c = [c]" by (auto simp: lowerUnit_def keyChar_def)
  then show ?case using Cons by (simp add: toLowerCase_def)
qed

lemma collapseSpaces_id:
  assumes "\<forall>c\<in>set k. keyChar c \<or> c = 32" and "\<not> sublist [32, 32] k"
  shows "collapseSpaces k = k"
  using assms
proof (induction k)
  case Nil
  show ?case by simp
next
  case (Cons c cs)
  have ih: "collapseSpaces cs = cs"
    using Cons by (auto simp: sublist_Cons_right)
  show ?case
  proof (cases "isSpace c")
    case False
    then show ?thesis using ih by simp
  next
    case True
    then have c: "c = 32" using Cons.prems(1) keyChar_not_space by auto
    have "cs = [] \<or> \<not> isSpace (hd cs)"
    proof (cases cs)
      case Nil
      then show ?thesis by simp
    next
      case (Cons d ds)
      then have "d \<noteq> 32" using Cons.prems(2) c by (auto simp: sublist_Cons_right)
      moreover have "keyChar d \<or> d = 32" using Cons.prems(1) Cons by simp
      ultimately show ?thesis using Cons keyChar_not_space by auto
    qed
    then have "dropWhile isSpace cs = cs" by (simp add: dropWhile_eq_self_iff)
    then show ?thesis using True c ih by simp
  qed
qed

lemma trim_id:
  assumes "\<forall>c\<in>set k. keyChar c \<or> c = 32" and "k \<noteq> [] \<longrightarrow> hd k \<noteq> 32 \<and> last k \<noteq> 32"
  shows "trim k = k"
proof (cases "k = []")
  case True
  then show ?thesis by (simp add: trim_def)
next
  case False
  then have "hd k \<in> set k" "last k \<in> set k" by simp_all
  then have "\<not> isSpace (hd k)" "\<not> isSpace (last k)"
    using assms False keyChar_not_space by blast+
  then have "dropWhile isSpace k = k" "dropWhile isSpace (rev k) = rev k"
    by (simp_all add: dropWhile_eq_self_iff hd_rev)
  then show ?thesis by (simp add: trim_def)
qed

lemma noUpper_nameTokens: "\<forall>p\<in>set nameTokens. noUpper p"
  by (simp add: nameTokens_def noUpper_def js_def)

lemma normalKey_fixpoint:
  assumes "normalKey k" and "\<forall>p\<in>set nameTokens. \<not> sublist p k"
  shows "normalizeName (JStr k) = Inr k"
proof -
  from assms(1) have chars: "\<forall>c\<in>set k. keyChar c \<or> c = 32"
    and single: "\<not> sublist [32, 32] k"
    and ends: "k \<noteq> [] \<longrightarrow> hd k \<noteq> 32 \<and> last k \<noteq> 32"
    by (simp_all add: normalKey_def)
  have up: "noUpper k" using chars by (auto simp: noUpper_def keyChar_def)
  have 1: "toLowerCase k = k" using chars by (rule toLowerCase_id)
  have 2: "removeAlternatives nameTokens k = k"
    using up assms(2) noUpper_nameTokens by (intro removeAlternatives_id) auto
  have 3: "removeSpecial k = k"
    using chars by (auto simp: removeSpecial_def filter_id_conv keyChar_def isWord_def isSpace_def)
  have 4: "collapseSpaces k = k" using chars single by (rule collapseSpaces_id)
  have 5: "trim k = k" using chars ends by (rule trim_id)
  show ?thesis by (simp add: normalizeName_def 1 2 3 4 5)
qed

section \<open>The claims\<close>

subsection \<open>Matcher\<close>

text \<open>
  C1. When the bucket of the candidate's normalized name holds a reference record with
  the candidate's normalized country key, \<open>findOpenFlightsMatch\<close> answers with strategy
  \<open>ExactNameCountry\<close> and with the first such record of the bucket, whatever the IATA
  map holds and whatever the case mappings of the runtime are. The country fields are
  strings or absent, as the data model has them.
\<close>

theorem exact_name_country_first:
  assumes name: "normalizeName (orElse (getProp yourAirport (js ''airportName'')) (JStr [])) = Inr n"
    and bucket: "map_of byName n = Some bucket"
    and r: "r \<in> set bucket" "countryMatches rt (getProp yourAirport (js ''country'')) r"
    and typed: "\<forall>a\<in>set bucket. stringOrFalsy (getProp a (js ''country''))"
               "stringOrFalsy (getProp yourAirport (js ''country''))"
  shows "\<exists>m. findOpenFlightsMatch rt yourAirport byName byIATA = Inr (Some (m, ExactNameCountry))
            \<and> find (countryMatches rt (getProp yourAirport (js ''country''))) bucket = Some m
            \<and> m \<in> set bucket
            \<and> countryMatches rt (getProp yourAirport (js ''country'')) m"
proof -
  let ?P = "countryMatches rt (getProp yourAirport (js ''country''))"
  from r obtain m where m: "find ?P bucket = Some m"
    by (cases "find ?P bucket") (auto simp: find_None_iff)
  then have mem: "m \<in> set bucket" and pm: "?P m"
    by (auto simp: find_Some_iff)
  from r obtain first others where b: "bucket = first # others"
    by (cases bucket) auto
  have "findCountryMatch rt (first # others) (getProp yourAirport (js ''country'')) = Inr (Some m)"
    using findCountryMatch_find [OF typed] m b by simp
  then have "findOpenFlightsMatch rt yourAirport byName byIATA = Inr (Some (m, ExactNameCountry))"
    using name bucket b by (simp add: findOpenFlightsMatch_def)
  with m mem pm show ?thesis by blast
qed

theorem exact_name_country_first_witness:
  "findOpenFlightsMatch basicLatinCase candBergen [(js ''bergen'', [refFlesland, refBergen])] [(js ''BGO'', refNoName)]
     = Inr (Some (refBergen, ExactNameCountry))"
proof -
  have 1: "normalizeName (orElse (getProp candBergen (js ''airportName'')) (JStr [])) = Inr (js ''bergen'')"
    by (simp add: evaluation)
  have 2: "map_of [(js ''bergen'', [refFlesland, refBergen])] (js ''bergen'') = Some [refFlesland, refBergen]"
    by simp
  have 3: "refBergen \<in> set [refFlesland, refBergen]" by simp
  have 4: "countryMatches basicLatinCase (getProp candBergen (js ''country'')) refBergen"
    by (simp add: evaluation)
  have 5: "\<forall>a\<in>set [refFlesland, refBergen]. stringOrFalsy (getProp a (js ''country''))"
    by (simp add: evaluation)
  have 6: "stringOrFalsy (getProp candBergen (js ''country''))"
    by (simp add: evaluation)
  have 7: "find (countryMatches basicLatinCase (getProp candBergen (js ''country''))) [refFlesland, refBergen] = Some refBergen"
    by (simp add: evaluation)
  from exact_name_country_first [OF 1 2 3 4 5 6, of "[(js ''BGO'', refNoName)]"] 7
  show ?thesis by auto
qed

text \<open>
  C2. For a normalized name of length at least 4, \<open>findPartialNameMatch\<close> returns the
  first record, in the key order of the index and the order of each bucket, that lies in
  a partial-hit bucket and has the candidate's normalized country key; a bucket without
  such a record is passed over. A bucket is a partial hit exactly when the number of
  candidate tokens that contain or are contained in a token of its key reaches
  \<open>min(2, ceil(candidateTokenCount / 2))\<close>. When the name has no token longer than two
  code units the strategy is left before any bucket is read.
\<close>

theorem partial_name_first_country_match:
  assumes "4 \<le> length n" and "typedIndex byName" and "stringOrFalsy country"
  shows "findPartialNameMatch rt n country byName
           = Inr (if significantWords n = [] then None
                  else find (countryMatches rt country)
                         (partialHitRecords (significantWords n) byName))
       \<and> (\<forall>m. findPartialNameMatch rt n country byName = Inr (Some m)
              \<longrightarrow> countryMatches rt country m
                  \<and> (\<exists>(bucketKey, bucket)\<in>set byName.
                         partialHit (significantWords n) bucketKey \<and> m \<in> set bucket))"
proof -
  let ?records = "partialHitRecords (significantWords n) byName"
  have eq: "findPartialNameMatch rt n country byName
              = Inr (if significantWords n = [] then None
                     else find (countryMatches rt country) ?records)"
    using assms(1) partialNameLoop_find [OF assms(2,3)]
    by (simp add: findPartialNameMatch_def)
  have "countryMatches rt country m
          \<and> (\<exists>(bucketKey, bucket)\<in>set byName.
                 partialHit (significantWords n) bucketKey \<and> m \<in> set bucket)"
    if "findPartialNameMatch rt n country byName = Inr (Some m)" for m
  proof -
    from that eq have "find (countryMatches rt country) ?records = Some m"
      by (simp split: if_splits)
    then have "countryMatches rt country m" and "m \<in> set ?records"
      by (auto simp: find_Some_iff)
    then show ?thesis by (auto simp: partialHitRecords_def)
  qed
  with eq show ?thesis by blast
qed

theorem partial_name_first_country_match_witness:
  "findPartialNameMatch basicLatinCase (js ''bergen flesland'') (JStr (js ''Norway''))
       [(js ''flesland'', [refFlesland]), (js ''bergen'', [refBergen])]
     = Inr (Some refBergen)
   \<and> partialHit (significantWords (js ''bergen flesland'')) (js ''flesland'')
   \<and> findPartialNameMatch basicLatinCase (js ''ab cd'') (JStr (js ''Norway''))
       [(js ''bergen'', [refBergen])]
     = Inr None"
proof -
  let ?idx = "[(js ''flesland'', [refFlesland]), (js ''bergen'', [refBergen])]"
  have 1: "4 \<le> length (js ''bergen flesland'')" "4 \<le> length (js ''ab cd'')"
    by (simp_all add: js_def)
  have 2: "typedIndex ?idx" "typedIndex [(js ''bergen'', [refBergen])]"
    by (simp_all add: evaluation)
  have 3: "stringOrFalsy (JStr (js ''Norway''))" by simp
  have 4: "significantWords (js ''bergen flesland'') \<noteq> []"
    "significantWords (js ''ab cd'') = []"
    by (simp_all add: evaluation)
  have 5: "find (countryMatches basicLatinCase (JStr (js ''Norway'')))
             (partialHitRecords (significantWords (js ''bergen flesland'')) ?idx) = Some refBergen"
    by (simp add: evaluation partialHitRecords_def partialHit_code)
  have 6: "partialHit (significantWords (js ''bergen flesland'')) (js ''flesland'')"
    by (simp add: evaluation partialHit_code)
  from partial_name_first_country_match [OF 1(1) 2(1) 3, of basicLatinCase]
    partial_name_first_country_match [OF 1(2) 2(2) 3, of basicLatinCase] 4 5 6
  show ?thesis by simp
qed

text \<open>
  C6. A normalized name shorter than 4 code units never reaches the partial-name loop:
  \<open>findPartialNameMatch\<close> returns no match at once, the result of the matcher is never
  \<open>PartialName\<close>, and when the exact lookup finds nothing the result is that of the IATA
  strategy.
\<close>

theorem short_name_skips_partial:
  assumes name: "normalizeName (orElse (getProp yourAirport (js ''airportName'')) (JStr [])) = Inr n"
    and short: "length n < 4"
  shows "findPartialNameMatch rt n country byName = Inr None
       \<and> (\<forall>m. findOpenFlightsMatch rt yourAirport byName byIATA \<noteq> Inr (Some (m, PartialName)))
       \<and> ((map_of byName n = None \<or> map_of byName n = Some [])
            \<longrightarrow> findOpenFlightsMatch rt yourAirport byName byIATA = iataStrategy rt yourAirport byIATA)"
proof -
  have p: "\<And>c. findPartialNameMatch rt n c byName = Inr None"
    using short by (simp add: findPartialNameMatch_def)
  have i: "\<And>m. iataStrategy rt yourAirport byIATA \<noteq> Inr (Some (m, PartialName))"
    using iataStrategy_cases [of rt yourAirport byIATA] by auto
  have "\<And>m. findOpenFlightsMatch rt yourAirport byName byIATA \<noteq> Inr (Some (m, PartialName))"
    using name p i
    by (auto simp: findOpenFlightsMatch_def split: option.splits list.splits sum.splits)
  moreover have "(map_of byName n = None \<or> map_of byName n = Some [])
            \<longrightarrow> findOpenFlightsMatch rt yourAirport byName byIATA = iataStrategy rt yourAirport byIATA"
    using name p by (auto simp: findOpenFlightsMatch_def)
  ultimately show ?thesis using p by blast
qed

theorem short_name_skips_partial_witness:
  "length (js ''ilo'') < 4
   \<and> findPartialNameMatch basicLatinCase (js ''ilo'') (JStr (js ''Peru'')) [(js ''bergen'', [refBergen])] = Inr None
   \<and> findOpenFlightsMatch basicLatinCase candShort [(js ''bergen'', [refBergen])] [(js ''BGO'', refBergen)]
       = Inr (Some (refBergen, Iata))"
proof -
  have 1: "normalizeName (orElse (getProp candShort (js ''airportName'')) (JStr [])) = Inr (js ''ilo'')"
    by (simp add: evaluation)
  have 2: "length (js ''ilo'') < 4" by (simp add: js_def)
  have 3: "map_of [(js ''bergen'', [refBergen])] (js ''ilo'') = None" by (simp add: js_def)
  have 4: "iataStrategy basicLatinCase candShort [(js ''BGO'', refBergen)] = Inr (Some (refBergen, Iata))"
    by (simp add: evaluation)
  from short_name_skips_partial [OF 1 2, of basicLatinCase "JStr (js ''Peru'')" "[(js ''bergen'', [refBergen])]"
         "[(js ''BGO'', refBergen)]"] 2 3 4
  show ?thesis by simp
qed

text \<open>
  C9. A candidate whose name normalizes to the empty key and whose IATA code is empty
  gets no match, and the record pushed for it is the unverified one, provided the name
  map has no bucket under the empty key.
\<close>

theorem no_name_no_code_unverified:
  assumes "normalizeName (orElse (getProp yourAirport (js ''airportName'')) (JStr [])) = Inr []"
    and "\<not> truthy (getProp yourAirport (js ''airportCode''))"
    and "map_of byName [] = None"
  shows "findOpenFlightsMatch rt yourAirport byName byIATA = Inr None
       \<and> processAirport rt yourAirport byName byIATA = Inr (unverifiedRecord yourAirport)
       \<and> getProp (unverifiedRecord yourAirport) (js ''correctionStatus'') = JStr (js ''no_match'')
       \<and> getProp (unverifiedRecord yourAirport) (js ''unverified'') = JBool True"
proof -
  have m: "findOpenFlightsMatch rt yourAirport byName byIATA = Inr None"
    using assms by (simp add: findOpenFlightsMatch_def findPartialNameMatch_def iataStrategy_def)
  then have "processAirport rt yourAirport byName byIATA = Inr (unverifiedRecord yourAirport)"
    by (simp add: processAirport_def)
  moreover have "getProp (unverifiedRecord yourAirport) (js ''correctionStatus'') = JStr (js ''no_match'')"
    "getProp (unverifiedRecord yourAirport) (js ''unverified'') = JBool True"
    by (simp_all add: unverifiedRecord_def getProp_withProps js_def)
  ultimately show ?thesis using m by simp
qed

theorem no_name_no_code_unverified_witness:
  "createLookupMaps basicLatinCase [refBergen] = Inr ([(js ''bergen'', [refBergen])], [(js ''BGO'', refBergen)])
   \<and> findOpenFlightsMatch basicLatinCase candEmpty [(js ''bergen'', [refBergen])] [(js ''BGO'', refBergen)] = Inr None
   \<and> processAirport basicLatinCase candEmpty [(js ''bergen'', [refBergen])] [(js ''BGO'', refBergen)]
       = Inr (unverifiedRecord candEmpty)"
proof -
  have 0: "createLookupMaps basicLatinCase [refBergen] = Inr ([(js ''bergen'', [refBergen])], [(js ''BGO'', refBergen)])"
    by (simp add: evaluation)
  have 1: "normalizeName (orElse (getProp candEmpty (js ''airportName'')) (JStr [])) = Inr []"
    by (simp add: evaluation)
  have 2: "\<not> truthy (getProp candEmpty (js ''airportCode''))" by (simp add: evaluation)
  have 3: "map_of [(js ''bergen'', [refBergen])] [] = None" by (simp add: js_def)
  from no_name_no_code_unverified [OF 1 2 3, of basicLatinCase "[(js ''BGO'', refBergen)]"] 0
  show ?thesis by simp
qed

text \<open>
  With a bucket under the empty key the same candidate is matched: a reference record
  named \<open>Airport\<close> is indexed under the empty key, and the exact-name strategy finds it.
\<close>

theorem empty_key_bucket_counterexample:
  "createLookupMaps basicLatinCase [refUnnamed] = Inr ([([], [refUnnamed])], [(js ''ILQ'', refUnnamed)])
   \<and> normalizeName (orElse (getProp candEmpty (js ''airportName'')) (JStr [])) = Inr []
   \<and> \<not> truthy (getProp candEmpty (js ''airportCode''))
   \<and> findOpenFlightsMatch basicLatinCase candEmpty [([], [refUnnamed])] [(js ''ILQ'', refUnnamed)]
        = Inr (Some (refUnnamed, ExactNameCountry))"
  by (simp add: evaluation)

subsection \<open>Reconciler\<close>

text \<open>
  C3. The whole-record overwrite is not reached for every matched pair in which a compared
  field differs. \<open>needsCorrection\<close> hands both names to \<open>normalizeName\<close> unguarded,
  so for a reference record without a name, found through its IATA code, with another
  ICAO code than the candidate's, \<open>correctAirport\<close> throws where the corrected record
  with the five reference fields is due.
\<close>

theorem corrected_throws_on_nameless_match:
  "createLookupMaps basicLatinCase [refNoName] = Inr ([], [(js ''BGO'', refNoName)])
   \<and> findOpenFlightsMatch basicLatinCase candBergen [] [(js ''BGO'', refNoName)]
       = Inr (Some (refNoName, Iata))
   \<and> strictNotEqual (getProp candBergen (js ''icaoCode'')) (getProp refNoName (js ''icaoCode''))
   \<and> fieldDiffers candBergen refNoName
   \<and> needsCorrection candBergen refNoName = Inl TypeError
   \<and> correctAirport candBergen refNoName Iata = Inl TypeError"
  by (simp add: evaluation fieldDiffers_def)

text \<open>
  C10. Every property of the candidate other than the five identity properties and the
  five metadata properties is in the record that \<open>correctAirport\<close> returns, with the
  value it had, and no other property is added.
\<close>

theorem other_fields_pass_through:
  assumes "correctAirport yourAirport openFlightsMatch mt = Inr out"
    and "k \<notin> set identityKeys" and "k \<notin> set metadataKeys"
  shows "map_of out k = map_of yourAirport k \<and> getProp out k = getProp yourAirport k"
proof -
  have "map_of out k = map_of yourAirport k"
    using correctAirport_cases [OF assms(1)] assms(2,3)
    by (auto simp: map_of_withProps correctedRecord_def identityKeys_def metadataKeys_def map_add_def)
  then show ?thesis by (simp add: getProp_def)
qed

theorem other_fields_pass_through_witness:
  "(\<exists>out. correctAirport candBergen refBergen ExactNameCountry = Inr out
          \<and> getProp out (js ''correctionStatus'') = JStr (js ''corrected'')
          \<and> getProp out (js ''runwayCategory'') = JStr (js ''long''))"
proof -
  have 1: "normalizeName (getProp candBergen (js ''airportName'')) = Inr (js ''bergen'')"
    by (simp add: evaluation)
  have 2: "normalizeName (getProp refBergen (js ''name'')) = Inr (js ''bergen'')"
    by (simp add: evaluation)
  have 3: "fieldDiffers candBergen refBergen"
    by (simp add: fieldDiffers_def candBergen_def refBergen_def getProp_def js_def)
  from needsCorrection_nonempty [OF 1 2] 3
  obtain cs where cs: "needsCorrection candBergen refBergen = Inr cs" "cs \<noteq> []" by blast
  then have out: "correctAirport candBergen refBergen ExactNameCountry
                    = Inr (correctedRecord candBergen refBergen ExactNameCountry cs)"
    by (simp add: correctAirport_def)
  have 4: "js ''runwayCategory'' \<notin> set identityKeys" "js ''runwayCategory'' \<notin> set metadataKeys"
    by (simp_all add: identityKeys_def metadataKeys_def js_def)
  have 5: "getProp candBergen (js ''runwayCategory'') = JStr (js ''long'')"
    by (simp add: candBergen_def getProp_def js_def)
  from other_fields_pass_through [OF out 4] 5 out
  show ?thesis by (simp add: getProp_correctedRecord)
qed

subsection \<open>Normalizer\<close>

text \<open>
  C4. Normalizing a second time changes nothing when the key contains none of the five
  name tokens.
\<close>

theorem normalizeName_idempotent_without_tokens:
  assumes "normalizeName (JStr x) = Inr k" and "\<forall>p\<in>set nameTokens. \<not> sublist p k"
  shows "normalizeTwice (JStr x) = normalizeName (JStr x)"
  using assms normalKey_fixpoint [OF normalizeName_normalKey [OF assms(1)] assms(2)]
  by (simp add: normalizeTwice_def)

theorem normalizeName_idempotent_without_tokens_witness:
  "normalizeName (JStr (js ''Bergen Airport'')) = Inr (js ''bergen'')
   \<and> normalizeTwice (JStr (js ''Bergen Airport'')) = Inr (js ''bergen'')"
proof -
  have 1: "normalizeName (JStr (js ''Bergen Airport'')) = Inr (js ''bergen'')"
    by (simp add: evaluation)
  have 2: "\<forall>p\<in>set nameTokens. \<not> sublist p (js ''bergen'')"
    by (simp add: evaluation)
  from normalizeName_idempotent_without_tokens [OF 1 2] 1 show ?thesis by simp
qed

text \<open>
  A token that only appears once the special characters are gone is stripped by the
  second pass: \<open>air-port\<close> gives \<open>airport\<close>, and \<open>airport\<close> gives the empty key.
\<close>

theorem normalizeName_idempotent_counterexample:
  "normalizeName (JStr (js ''air-port'')) = Inr (js ''airport'')
   \<and> normalizeTwice (JStr (js ''air-port'')) = Inr []
   \<and> normalizeTwice (JStr (js ''air-port'')) \<noteq> normalizeName (JStr (js ''air-port''))"
  by (simp add: evaluation normalizeTwice_def)

text \<open>
  C5. \<open>normalizeName\<close> is not total: on \<open>null\<close> it throws a TypeError, where
  \<open>normalizeCountry\<close> returns the empty key. \<open>needsCorrection\<close> passes it the name of
  the matched reference record unguarded, so a reference record without a name that is
  found through its IATA code aborts the run.
\<close>

theorem normalizeName_null_throws:
  "normalizeName JNull = Inl TypeError
   \<and> normalizeCountry basicLatinCase JNull = Inr []
   \<and> normalizeName (JStr []) = Inr []
   \<and> createLookupMaps basicLatinCase [refNoName] = Inr ([], [(js ''BGO'', refNoName)])
   \<and> findOpenFlightsMatch basicLatinCase candBergen [] [(js ''BGO'', refNoName)] = Inr (Some (refNoName, Iata))
   \<and> processAirport basicLatinCase candBergen [] [(js ''BGO'', refNoName)] = Inl TypeError"
  by (simp add: evaluation)

text \<open>
  C8. For every string, \<open>normalizeName\<close> returns a key made of lower-case Basic Latin
  letters, digits, underscores and single spaces, with no space at either end.
\<close>

theorem normalizeName_key_shape:
  "\<exists>k. normalizeName (JStr s) = Inr k \<and> normalKey k"
  using normalizeName_normalKey [of s] by (simp add: normalizeName_def)

theorem normalizeName_key_shape_witness:
  "normalizeName (JStr (js ''Key_West  Intl. Airport '')) = Inr (js ''key_west intl'')
   \<and> normalKey (js ''key_west intl'')"
proof -
  have 1: "normalizeName (JStr (js ''Key_West  Intl. Airport '')) = Inr (js ''key_west intl'')"
    by (simp add: evaluation)
  from normalizeName_key_shape [of "js ''Key_West  Intl. Airport ''"] 1
  show ?thesis by simp
qed

text \<open>
  The underscore is a word character of the regular expression, so it stays in the key
  although it is neither a letter, a digit nor white space.
\<close>

theorem normalizeName_underscore_counterexample:
  "normalizeName (JStr (js ''Key_West Airport'')) = Inr (js ''key_west'')
   \<and> 95 \<in> set (js ''key_west'')
   \<and> \<not> isLetter 95 \<and> \<not> isDigit 95 \<and> \<not> isSpace 95"
  by (simp add: evaluation isLetter_def isDigit_def)




end
